theory Spec2Isabelle
  imports Complex_Main
begin

section \<open>HealScan AI: response normalisation and the bounded history\<close>

text \<open>
  The program is a TypeScript client (\<^verbatim>\<open>src/gemini.ts\<close>, \<^verbatim>\<open>src/App.tsx\<close>). Its logic sits on
  top of the JavaScript coercions \<^verbatim>\<open>String\<close>, \<^verbatim>\<open>Number\<close>, \<^verbatim>\<open>||\<close>, \<^verbatim>\<open>Array.isArray\<close> and of
  \<^verbatim>\<open>JSON.parse\<close>/\<^verbatim>\<open>JSON.stringify\<close>, so the embedding starts with the values of the language.
  Strings are \<^typ>\<open>string\<close>: the characters are the code units below 256.
\<close>

subsection \<open>Numbers\<close>

text \<open>
  A JavaScript number is a binary64 value: \<^verbatim>\<open>NaN\<close>, an infinity, or a finite value, here the
  rational it denotes. The zero \<^verbatim>\<open>-0\<close> is identified with \<^verbatim>\<open>0\<close>: no operation of the program
  tells them apart (\<^verbatim>\<open>-0 || 0\<close> is \<^verbatim>\<open>0\<close>, \<^verbatim>\<open>-0 <= 12\<close> holds, both print as \<^verbatim>\<open>0\<close>).
\<close>

datatype jsnum = NaN | NegInf | Fin rat | PosInf

function bitlen :: "int \<Rightarrow> int" where
  \<comment> \<open>the number of binary digits of a positive integer\<close>
  "bitlen n = (if n \<le> 0 then 0 else 1 + bitlen (n div 2))"
  by pat_completeness auto
termination
  by (relation "measure nat") auto

declare bitlen.simps [simp del]

definition pow2 :: "int \<Rightarrow> rat" where
  "pow2 z = (if 0 \<le> z then of_int (2 ^ nat z) else 1 / of_int (2 ^ nat (- z)))"

definition pow10 :: "int \<Rightarrow> rat" where
  "pow10 z = (if 0 \<le> z then of_int (10 ^ nat z) else 1 / of_int (10 ^ nat (- z)))"

definition ilog2 :: "rat \<Rightarrow> int" where
  \<comment> \<open>\<open>\<lfloor>log\<^sub>2 a\<rfloor>\<close> for \<open>0 < a\<close>, from the bit lengths of numerator and denominator\<close>
  "ilog2 a =
     (case quotient_of a of (n, d) \<Rightarrow>
        let c = bitlen n - bitlen d
        in if (if 0 \<le> c then d * 2 ^ nat c \<le> n else d \<le> n * 2 ^ nat (- c)) then c else c - 1)"

definition ilog10 :: "rat \<Rightarrow> int" where
  \<comment> \<open>\<open>\<lfloor>log\<^sub>1\<^sub>0 a\<rfloor>\<close> for \<open>0 < a\<close>: an estimate from \<open>ilog2\<close>, corrected by one\<close>
  "ilog10 a =
     (let c = (ilog2 a * 30103) div 100000
      in if a < pow10 c then c - 1 else if pow10 (c + 1) \<le> a then c + 1 else c)"

definition round_div :: "int \<Rightarrow> int \<Rightarrow> int" where
  \<comment> \<open>\<open>a / b\<close> for \<open>0 < b\<close>, rounded to the nearest integer, a tie to the even one\<close>
  "round_div a b =
     (let q = a div b; r = a mod b
      in if 2 * r < b then q else if b < 2 * r then q + 1
         else if even q then q else q + 1)"

definition round_double :: "rat \<Rightarrow> jsnum" where
  \<comment> \<open>the Number value for a mathematical value: round to nearest, ties to even, with
      53 significant bits \<open>m\<close> at the exponent \<open>p\<close>, least exponent \<open>-1074\<close>, and overflow
      to the infinities from \<open>2\<^sup>1\<^sup>0\<^sup>2\<^sup>4\<close> on\<close>
  "round_double q =
     (if q = 0 then Fin 0
      else case quotient_of \<bar>q\<bar> of (n, d) \<Rightarrow>
        let p = max (ilog2 \<bar>q\<bar> - 52) (- 1074);
            m = (if 0 \<le> p then round_div n (d * 2 ^ nat p) else round_div (n * 2 ^ nat (- p)) d)
        in if 1024 < bitlen m + p then (if 0 < q then PosInf else NegInf)
           else Fin ((if 0 < q then of_int m else - of_int m) * pow2 p))"

text \<open>Comparison: every comparison with \<^verbatim>\<open>NaN\<close> is false.\<close>

fun js_le :: "jsnum \<Rightarrow> jsnum \<Rightarrow> bool" where
  "js_le NaN _ = False"
| "js_le _ NaN = False"
| "js_le NegInf _ = True"
| "js_le _ PosInf = True"
| "js_le (Fin a) (Fin b) = (a \<le> b)"
| "js_le _ _ = False"

definition js_ge :: "jsnum \<Rightarrow> jsnum \<Rightarrow> bool" where
  "js_ge a b = js_le b a"

definition isNaN :: "jsnum \<Rightarrow> bool" where
  "isNaN n = (n = NaN)"

definition Math_min :: "jsnum \<Rightarrow> jsnum \<Rightarrow> jsnum" where
  "Math_min a b = (if a = NaN \<or> b = NaN then NaN else if js_le a b then a else b)"

definition Math_max :: "jsnum \<Rightarrow> jsnum \<Rightarrow> jsnum" where
  "Math_max a b = (if a = NaN \<or> b = NaN then NaN else if js_le a b then b else a)"

subsection \<open>Number to string\<close>

definition digit_char :: "int \<Rightarrow> char" where
  "digit_char d = char_of (48 + d)"

function digits :: "int \<Rightarrow> string" where
  \<comment> \<open>the decimal digits of a natural number\<close>
  "digits n = (if n < 10 then [digit_char n] else digits (n div 10) @ [digit_char (n mod 10)])"
  by pat_completeness auto
termination
  by (relation "measure nat") auto

declare digits.simps [simp del]

text \<open>
  \<^verbatim>\<open>Number::toString\<close> of ECMAScript writes a positive number \<open>x\<close> with the integers \<open>n\<close>,
  \<open>k\<close>, \<open>s\<close> such that \<open>s\<close> has \<open>k\<close> digits, \<open>s \<times> 10\<^sup>n\<^sup>-\<^sup>k\<close> is \<open>x\<close> as a Number value, and \<open>k\<close> is
  as small as possible (the closest such \<open>s\<close>, the even one on a tie). \<open>shortest\<close> looks for them,
  \<open>k\<close> upwards from 1; 17 digits identify every binary64 value.
\<close>

fun shortest :: "nat \<Rightarrow> nat \<Rightarrow> rat \<Rightarrow> int \<times> nat \<times> int" where
  "shortest fuel k x =
     (let n = ilog10 x + 1;
          scale = pow10 (n - int k);
          lo = \<lfloor>x / scale\<rfloor>;
          hi = lo + 1;
          ok_lo = (round_double (of_int lo * scale) = Fin x);
          ok_hi = (round_double (of_int hi * scale) = Fin x);
          d_lo = x - of_int lo * scale;
          d_hi = of_int hi * scale - x;
          pick_lo = (d_lo < d_hi \<or> (d_lo = d_hi \<and> even lo));
          norm = (\<lambda>s. if s = 10 ^ k then (n + 1, k, 10 ^ (k - 1)) else (n, k, s))
      in case fuel of
           0 \<Rightarrow> norm (if pick_lo then lo else hi)
         | Suc fuel' \<Rightarrow>
             if ok_lo \<and> ok_hi then norm (if pick_lo then lo else hi)
             else if ok_lo then norm lo
             else if ok_hi then norm hi
             else shortest fuel' (Suc k) x)"

declare shortest.simps [simp del]

definition exponent_part :: "int \<Rightarrow> string" where
  "exponent_part e = ''e'' @ (if 0 \<le> e then ''+'' else ''-'') @ digits \<bar>e\<bar>"

definition format_number :: "int \<times> nat \<times> int \<Rightarrow> string" where
  "format_number nks =
     (case nks of (n, k, s) \<Rightarrow>
        let ds = digits s in
        if int k \<le> n \<and> n \<le> 21 then ds @ replicate (nat (n - int k)) (CHR ''0'')
        else if 0 < n \<and> n \<le> 21 then take (nat n) ds @ ''.'' @ drop (nat n) ds
        else if - 6 < n \<and> n \<le> 0 then ''0.'' @ replicate (nat (- n)) (CHR ''0'') @ ds
        else if k = 1 then ds @ exponent_part (n - 1)
        else take 1 ds @ ''.'' @ drop 1 ds @ exponent_part (n - 1))"

fun Number_toString :: "jsnum \<Rightarrow> string" where
  "Number_toString NaN = ''NaN''"
| "Number_toString PosInf = ''Infinity''"
| "Number_toString NegInf = ''-Infinity''"
| "Number_toString (Fin q) =
     (if q = 0 then ''0''
      else if q < 0 then ''-'' @ format_number (shortest 16 1 (- q))
      else format_number (shortest 16 1 q))"

subsection \<open>String to number\<close>

text \<open>
  \<^verbatim>\<open>Number(s)\<close> on a string follows the \<open>StringNumericLiteral\<close> grammar: white space is
  trimmed; the empty string is \<open>0\<close>; then an optional sign with \<^verbatim>\<open>Infinity\<close> or a decimal
  literal, or an unsigned binary, octal or hexadecimal integer; anything else is \<^verbatim>\<open>NaN\<close>.
\<close>

definition is_digit :: "char \<Rightarrow> bool" where
  "is_digit c = (48 \<le> (of_char c :: nat) \<and> (of_char c :: nat) \<le> 57)"

definition digit_of :: "char \<Rightarrow> nat" where
  \<comment> \<open>the value of a digit of any base up to 16, and 16 for every other character\<close>
  "digit_of c =
     (let n = (of_char c :: nat) in
      if 48 \<le> n \<and> n \<le> 57 then n - 48
      else if 97 \<le> n \<and> n \<le> 102 then n - 87
      else if 65 \<le> n \<and> n \<le> 70 then n - 55
      else 16)"

definition digits_value :: "int \<Rightarrow> string \<Rightarrow> int" where
  "digits_value base ds = foldl (\<lambda>acc c. acc * base + int (digit_of c)) 0 ds"

definition is_StrWhiteSpaceChar :: "char \<Rightarrow> bool" where
  "is_StrWhiteSpaceChar c = ((of_char c :: nat) \<in> {9, 10, 11, 12, 13, 32, 160})"

definition trim :: "string \<Rightarrow> string" where
  "trim s = rev (dropWhile is_StrWhiteSpaceChar (rev (dropWhile is_StrWhiteSpaceChar s)))"

definition all_digits :: "nat \<Rightarrow> string \<Rightarrow> bool" where
  "all_digits base ds = (ds \<noteq> [] \<and> (\<forall>c \<in> set ds. digit_of c < base))"

definition ExponentPart :: "string \<Rightarrow> int option" where
  \<comment> \<open>what follows the mantissa: nothing, or \<^verbatim>\<open>e\<close>/\<^verbatim>\<open>E\<close>, an optional sign and digits\<close>
  "ExponentPart s =
     (case s of
        [] \<Rightarrow> Some 0
      | c # r \<Rightarrow>
          if c = CHR ''e'' \<or> c = CHR ''E'' then
            (case r of
               [] \<Rightarrow> None
             | d # ds \<Rightarrow>
                 if d = CHR ''+'' then (if all_digits 10 ds then Some (digits_value 10 ds) else None)
                 else if d = CHR ''-'' then (if all_digits 10 ds then Some (- digits_value 10 ds) else None)
                 else (if all_digits 10 r then Some (digits_value 10 r) else None))
          else None)"

definition StrUnsignedDecimalLiteral :: "string \<Rightarrow> jsnum" where
  "StrUnsignedDecimalLiteral s =
     (if s = ''Infinity'' then PosInf
      else
        let ip = takeWhile is_digit s;
            r1 = dropWhile is_digit s;
            dot = (r1 \<noteq> [] \<and> hd r1 = CHR ''.'');
            fp = (if dot then takeWhile is_digit (tl r1) else []);
            r2 = (if dot then dropWhile is_digit (tl r1) else r1)
        in if ip = [] \<and> fp = [] then NaN
           else case ExponentPart r2 of
                  None \<Rightarrow> NaN
                | Some e \<Rightarrow>
                    round_double (of_int (digits_value 10 (ip @ fp)) * pow10 (e - int (length fp))))"

definition negate :: "jsnum \<Rightarrow> jsnum" where
  "negate n = (case n of NaN \<Rightarrow> NaN | NegInf \<Rightarrow> PosInf | PosInf \<Rightarrow> NegInf | Fin q \<Rightarrow> Fin (- q))"

definition NonDecimalIntegerLiteral :: "string \<Rightarrow> jsnum option" where
  "NonDecimalIntegerLiteral s =
     (case s of
        z # x # ds \<Rightarrow>
          if z \<noteq> CHR ''0'' then None
          else if x = CHR ''x'' \<or> x = CHR ''X'' then
            Some (if all_digits 16 ds then round_double (of_int (digits_value 16 ds)) else NaN)
          else if x = CHR ''o'' \<or> x = CHR ''O'' then
            Some (if all_digits 8 ds then round_double (of_int (digits_value 8 ds)) else NaN)
          else if x = CHR ''b'' \<or> x = CHR ''B'' then
            Some (if all_digits 2 ds then round_double (of_int (digits_value 2 ds)) else NaN)
          else None
      | _ \<Rightarrow> None)"

definition StringToNumber :: "string \<Rightarrow> jsnum" where
  "StringToNumber str =
     (let s = trim str in
      if s = [] then Fin 0
      else case NonDecimalIntegerLiteral s of
             Some n \<Rightarrow> n
           | None \<Rightarrow>
               if hd s = CHR ''+'' then StrUnsignedDecimalLiteral (tl s)
               else if hd s = CHR ''-'' then negate (StrUnsignedDecimalLiteral (tl s))
               else StrUnsignedDecimalLiteral s)"

subsection \<open>Values\<close>

text \<open>
  An object is the list of its own properties in insertion order; the keys of an object are
  distinct, and \<open>map_of\<close> reads a property. \<^verbatim>\<open>undefined\<close> is a value of its own.
\<close>

datatype jsval =
    JUndefined
  | JNull
  | JBool bool
  | JNum jsnum
  | JStr string
  | JArr "jsval list"
  | JObj "(string \<times> jsval) list"

datatype error =
    ConfigurationError    \<comment> \<open>\<^verbatim>\<open>Error('Missing VITE_GEMINI_API_KEY')\<close>\<close>
  | AnalysisFailed string \<comment> \<open>whatever the upload or the endpoint throws, with its message\<close>
  | NoJsonFound           \<comment> \<open>\<^verbatim>\<open>Error('Model returned no JSON')\<close>\<close>
  | MalformedResponse     \<comment> \<open>the \<^verbatim>\<open>SyntaxError\<close> of \<^verbatim>\<open>JSON.parse\<close>\<close>
  | TypeError             \<comment> \<open>a property read on \<^verbatim>\<open>null\<close>, a spread of a value that is not iterable\<close>
  | QuotaExceeded         \<comment> \<open>\<^verbatim>\<open>localStorage.setItem\<close> refused the write\<close>

fun ToBoolean :: "jsval \<Rightarrow> bool" where
  "ToBoolean JUndefined = False"
| "ToBoolean JNull = False"
| "ToBoolean (JBool b) = b"
| "ToBoolean (JNum n) = (n \<noteq> NaN \<and> n \<noteq> Fin 0)"
| "ToBoolean (JStr s) = (s \<noteq> [])"
| "ToBoolean (JArr _) = True"
| "ToBoolean (JObj _) = True"

definition or_else :: "jsval \<Rightarrow> jsval \<Rightarrow> jsval" where
  \<comment> \<open>\<^verbatim>\<open>a || b\<close>\<close>
  "or_else a b = (if ToBoolean a then a else b)"

definition num_or :: "jsnum \<Rightarrow> jsnum \<Rightarrow> jsnum" where
  \<comment> \<open>\<^verbatim>\<open>a || b\<close> on numbers: the falsy numbers are \<^verbatim>\<open>NaN\<close> and \<^verbatim>\<open>0\<close>\<close>
  "num_or a b = (if ToBoolean (JNum a) then a else b)"

fun join :: "string \<Rightarrow> string list \<Rightarrow> string" where
  "join sep [] = []"
| "join sep [x] = x"
| "join sep (x # y # ys) = x @ sep @ join sep (y # ys)"

text \<open>
  \<^verbatim>\<open>String(v)\<close>. An array is the join of its elements with commas, \<^verbatim>\<open>null\<close> and \<^verbatim>\<open>undefined\<close>
  elements as the empty string; a plain object is \<^verbatim>\<open>[object Object]\<close>.
\<close>

fun ToString :: "jsval \<Rightarrow> string" where
  "ToString JUndefined = ''undefined''"
| "ToString JNull = ''null''"
| "ToString (JBool b) = (if b then ''true'' else ''false'')"
| "ToString (JNum n) = Number_toString n"
| "ToString (JStr s) = s"
| "ToString (JArr xs) =
     join '','' (map (\<lambda>x. if x = JNull \<or> x = JUndefined then [] else ToString x) xs)"
| "ToString (JObj _) = ''[object Object]''"

text \<open>\<^verbatim>\<open>Number(v)\<close>. An array or object goes through its string.\<close>

fun ToNumber :: "jsval \<Rightarrow> jsnum" where
  "ToNumber JUndefined = NaN"
| "ToNumber JNull = Fin 0"
| "ToNumber (JBool b) = (if b then Fin 1 else Fin 0)"
| "ToNumber (JNum n) = n"
| "ToNumber (JStr s) = StringToNumber s"
| "ToNumber (JArr xs) = StringToNumber (ToString (JArr xs))"
| "ToNumber (JObj kvs) = StringToNumber (ToString (JObj kvs))"


text \<open>
  A property read \<^verbatim>\<open>v.key\<close>, for the keys the program reads (\<^verbatim>\<open>type\<close>, \<^verbatim>\<open>stage\<close>,
  \<^verbatim>\<open>severity\<close>, \<^verbatim>\<open>precautions\<close>, \<^verbatim>\<open>meds\<close>, \<^verbatim>\<open>age\<close>, ...): none of them lives on a prototype,
  so the read is \<^verbatim>\<open>undefined\<close> on everything but an object that owns the key. On \<^verbatim>\<open>null\<close>
  and \<^verbatim>\<open>undefined\<close> a read throws a \<^verbatim>\<open>TypeError\<close>: the callers test \<open>nullish\<close> first.
\<close>

definition nullish :: "jsval \<Rightarrow> bool" where
  "nullish v = (v = JNull \<or> v = JUndefined)"

fun getprop :: "jsval \<Rightarrow> string \<Rightarrow> jsval" where
  "getprop (JObj kvs) key = (case map_of kvs key of None \<Rightarrow> JUndefined | Some v \<Rightarrow> v)"
| "getprop _ key = JUndefined"

text \<open>
  The spread \<^verbatim>\<open>...v\<close> into an array literal: the elements of an array, the characters of a
  string, a \<^verbatim>\<open>TypeError\<close> on everything else \<^verbatim>\<open>JSON.parse\<close> can return.
\<close>

fun spread :: "jsval \<Rightarrow> error + jsval list" where
  "spread (JArr xs) = Inr xs"
| "spread (JStr s) = Inr (map (\<lambda>c. JStr [c]) s)"
| "spread _ = Inl TypeError"

definition slice :: "nat \<Rightarrow> 'a list \<Rightarrow> 'a list" where
  \<comment> \<open>\<^verbatim>\<open>xs.slice(0, n)\<close>\<close>
  "slice n xs = take n xs"

subsection \<open>The runtime's JSON functions\<close>

text \<open>
  \<^verbatim>\<open>JSON.parse\<close> (\<open>None\<close> is its \<^verbatim>\<open>SyntaxError\<close>) and \<^verbatim>\<open>JSON.stringify\<close> belong to the runtime,
  not to the program. The program is embedded over any pair of them; \<open>js\<close> below is a
  concrete pair, used wherever the program is run on an input.
\<close>

record runtime =
  JSON_parse :: "string \<Rightarrow> jsval option"
  JSON_stringify :: "jsval \<Rightarrow> string"

subsection \<open>\<^verbatim>\<open>src/gemini.ts\<close>\<close>

record core =
  type :: string
  stage :: string
  severity :: jsnum
  precautions :: "string list"
  meds :: "string list"

record File =
  mimeType :: string
  bytes :: string
  objectUrl :: string \<comment> \<open>what \<^verbatim>\<open>URL.createObjectURL\<close> returns for the file\<close>

text \<open>
  What one call of \<^verbatim>\<open>onAnalyze\<close> meets outside the program: the configured key, the outcome
  of reading the file and calling the endpoint with the prompt (\<open>Inl\<close> the message of what
  was thrown, \<open>Inr\<close> the text of the response), the clock, and whether the storage takes
  the write.
\<close>

record world =
  apiKey :: "string option"
  generateContent :: "string \<Rightarrow> File \<Rightarrow> string + string"
  now :: int
  quotaExceeded :: bool

definition toStrArray :: "jsval \<Rightarrow> string list" where
  \<comment> \<open>\<^verbatim>\<open>Array.isArray(v) ? v.map(String).filter(Boolean) : []\<close>\<close>
  "toStrArray v =
     (case v of
        JArr xs \<Rightarrow> filter (\<lambda>s. ToBoolean (JStr s)) (map ToString xs)
      | _ \<Rightarrow> [])"

definition clamp :: "jsnum \<Rightarrow> jsnum \<Rightarrow> jsnum \<Rightarrow> jsnum" where
  \<comment> \<open>\<^verbatim>\<open>Math.max(min, Math.min(max, n))\<close>\<close>
  "clamp n mn mx = Math_max mn (Math_min mx n)"

text \<open>
  \<^verbatim>\<open>text.match(/\{[\s\S]*\}/)\<close>: the match starts at the first \<^verbatim>\<open>{\<close>; the greedy \<^verbatim>\<open>[\s\S]*\<close>
  takes every character and gives back up to the last \<^verbatim>\<open>}\<close>. With no \<^verbatim>\<open>}\<close> after the first
  \<^verbatim>\<open>{\<close> no later start can match either.
\<close>

definition regex_match :: "string \<Rightarrow> string option" where
  "regex_match text =
     (case dropWhile (\<lambda>c. c \<noteq> CHR ''{'') text of
        [] \<Rightarrow> None
      | b # rest \<Rightarrow>
          if CHR ''}'' \<in> set rest
          then Some (b # rev (dropWhile (\<lambda>c. c \<noteq> CHR ''}'') (rev rest)))
          else None)"

definition normalized :: "jsval \<Rightarrow> core" where
  \<comment> \<open>the object literal that \<^verbatim>\<open>parseModelResponse\<close> returns, lines 70 to 76\<close>
  "normalized json =
     \<lparr> type = ToString (or_else (getprop json ''type'') (JStr ''Other'')),
       stage = ToString (or_else (getprop json ''stage'') (JStr ''Unknown'')),
       severity = clamp (num_or (ToNumber (getprop json ''severity'')) (Fin 0)) (Fin 0) (Fin 100),
       precautions = slice 4 (toStrArray (getprop json ''precautions'')),
       meds = slice 4 (toStrArray (getprop json ''meds'')) \<rparr>"

definition parseModelResponse :: "runtime \<Rightarrow> string \<Rightarrow> error + core" where
  "parseModelResponse rt text =
     (case regex_match text of
        None \<Rightarrow> Inl NoJsonFound
      | Some m \<Rightarrow>
          (case JSON_parse rt m of
             None \<Rightarrow> Inl MalformedResponse
           | Some json \<Rightarrow> if nullish json then Inl TypeError else Inr (normalized json)))"

definition buildPrompt :: "jsnum option \<Rightarrow> string" where
  \<open>buildPrompt a =
     ''You are HealScan AI, a wound recognition assistant. Analyze the wound in the image and respond ONLY in valid JSON matching this schema:''
     @ [CHR 0x0A] @ ''{'' @ [CHR 0x0A]
     @ ''  "type": "string (one of: Burn, Cut, Diabetic Foot Ulcer, Infected Wound, Other)",'' @ [CHR 0x0A]
     @ ''  "stage": "string (Inflammatory | Proliferative | Maturation | Unknown)",'' @ [CHR 0x0A]
     @ ''  "severity": "integer 0-100 (overall severity considering risk)",'' @ [CHR 0x0A]
     @ ''  "precautions": ["3-4 concise bullet points"],'' @ [CHR 0x0A]
     @ ''  "meds": ["3-4 concise, non-repetitive care and medicine suggestions"]'' @ [CHR 0x0A]
     @ ''}'' @ [CHR 0x0A]
     @ ''Age of patient: '' @ (case a of None \<Rightarrow> ''unknown'' | Some n \<Rightarrow> Number_toString n)
     @ ''. Tailor advice to age group: Child (<=12), Adult (13-59), Elderly (>=60). Avoid duplicates. No prose outside JSON.''\<close>

definition analyzeWithGemini :: "runtime \<Rightarrow> world \<Rightarrow> File \<Rightarrow> jsnum option \<Rightarrow> error + core" where
  "analyzeWithGemini rt w f a =
     (case apiKey w of
        None \<Rightarrow> Inl ConfigurationError
      | Some k \<Rightarrow>
          if k = [] then Inl ConfigurationError
          else (case generateContent w (buildPrompt a) f of
                  Inl msg \<Rightarrow> Inl (AnalysisFailed msg)
                | Inr text \<Rightarrow> parseModelResponse rt text))"

subsection \<open>\<^verbatim>\<open>src/App.tsx\<close>\<close>

definition toAgeGroup :: "jsnum option \<Rightarrow> string" where
  "toAgeGroup a =
     (case a of
        None \<Rightarrow> ''Any Age''
      | Some n \<Rightarrow>
          if isNaN n then ''Any Age''
          else if js_le n (Fin 12) then ''Child''
          else if js_ge n (Fin 60) then ''Elderly''
          else ''Adult'')"

datatype TabKey = Results | History | Examples | Reports

datatype alert =
    SelectImage   \<comment> \<open>\<^verbatim>\<open>alert('Please select an image.')\<close>\<close>
  | Failure error \<comment> \<open>\<^verbatim>\<open>alert(e?.message || 'Analysis failed')\<close> for the error caught\<close>

text \<open>
  The state of the component, with the item \<^verbatim>\<open>healscan_history\<close> of \<^verbatim>\<open>localStorage\<close> and the
  alerts shown so far. \<open>history\<close> is whatever \<^verbatim>\<open>readHistory\<close> returned at the start: a value,
  not necessarily an array of records.
\<close>

record app =
  activeTab :: TabKey
  selected :: "File option"
  age :: string
  busy :: bool
  thinking :: string
  result :: "jsval option"
  history :: jsval
  storage :: "string option"
  alerts :: "alert list"

definition saveHistory :: "runtime \<Rightarrow> jsval \<Rightarrow> app \<Rightarrow> app" where
  \<comment> \<open>\<^verbatim>\<open>localStorage.setItem('healscan_history', JSON.stringify(list))\<close>\<close>
  "saveHistory rt list s = s\<lparr>storage := Some (JSON_stringify rt list)\<rparr>"

definition readHistory :: "runtime \<Rightarrow> string option \<Rightarrow> jsval" where
  \<comment> \<open>\<^verbatim>\<open>try { return JSON.parse(localStorage.getItem(key) || '[]') } catch { return [] }\<close>;
      \<^verbatim>\<open>getItem\<close> is \<^verbatim>\<open>null\<close> for a missing item\<close>
  "readHistory rt item =
     (let text = (case item of None \<Rightarrow> ''[]'' | Some t \<Rightarrow> if t = [] then ''[]'' else t)
      in case JSON_parse rt text of None \<Rightarrow> JArr [] | Some v \<Rightarrow> v)"

definition initial :: "runtime \<Rightarrow> string option \<Rightarrow> app" where
  \<comment> \<open>the \<^verbatim>\<open>useState\<close> initialisers of \<^verbatim>\<open>App\<close>, over the stored item\<close>
  "initial rt item =
     \<lparr> activeTab = Results, selected = None, age = [], busy = False, thinking = [],
       result = None, history = readHistory rt item, storage = item, alerts = [] \<rparr>"

definition entry :: "core \<Rightarrow> int \<Rightarrow> string \<Rightarrow> jsnum \<Rightarrow> string \<Rightarrow> jsval" where
  \<comment> \<open>the object literal of lines 33 to 39: the spread of \<open>res\<close>, then the four properties\<close>
  "entry res t url ageNum ageGroup =
     JObj [(''type'', JStr (type res)),
           (''stage'', JStr (stage res)),
           (''severity'', JNum (severity res)),
           (''precautions'', JArr (map JStr (precautions res))),
           (''meds'', JArr (map JStr (meds res))),
           (''timestamp'', JNum (Fin (of_int t))),
           (''imageUrl'', JStr url),
           (''age'', if isNaN ageNum then JUndefined else JNum ageNum),
           (''ageGroup'', JStr ageGroup)]"

definition caught :: "error \<Rightarrow> app \<Rightarrow> app" where
  \<comment> \<open>the \<^verbatim>\<open>catch\<close> and \<^verbatim>\<open>finally\<close> blocks\<close>
  "caught e s = s\<lparr>alerts := alerts s @ [Failure e], thinking := [], busy := False\<rparr>"

definition new_entry :: "runtime \<Rightarrow> world \<Rightarrow> app \<Rightarrow> File \<Rightarrow> error + jsval" where
  \<comment> \<open>lines 29 to 39: the analysis and, when it returns, the record made of it\<close>
  "new_entry rt w s f =
     (let ageNum = StringToNumber (age s);
          ageGroup = toAgeGroup (Some ageNum)
      in case analyzeWithGemini rt w f (if isNaN ageNum then None else Some ageNum) of
           Inl e \<Rightarrow> Inl e
         | Inr res \<Rightarrow> Inr (entry res (now w) (objectUrl f) ageNum ageGroup))"

text \<open>
  \<^verbatim>\<open>onAnalyze\<close>, from the state before the click to the state after the promise has settled
  (\<open>busy\<close> and \<open>thinking\<close> are set on the way and reset at the end).
\<close>

definition onAnalyze :: "runtime \<Rightarrow> world \<Rightarrow> app \<Rightarrow> app" where
  "onAnalyze rt w s =
     (case selected s of
        None \<Rightarrow> s\<lparr>alerts := alerts s @ [SelectImage]\<rparr>
      | Some f \<Rightarrow>
          (case new_entry rt w s f of
             Inl e \<Rightarrow> caught e s
           | Inr en \<Rightarrow>
               let s1 = s\<lparr>result := Some en\<rparr> in
               (case spread (history s) of
                  Inl e \<Rightarrow> caught e s1
                | Inr xs \<Rightarrow>
                    let updated = JArr (slice 25 (en # xs));
                        s2 = s1\<lparr>history := updated\<rparr>
                    in if quotaExceeded w then caught QuotaExceeded s2
                       else (saveHistory rt updated s2)
                              \<lparr>activeTab := Results, thinking := [], busy := False\<rparr>)))"

text \<open>What the user does between two analyses, and a session as a list of such events.\<close>

datatype event =
    FileChange "File option" \<comment> \<open>\<^verbatim>\<open>onFileChange\<close>\<close>
  | AgeChange string         \<comment> \<open>the \<^verbatim>\<open>onChange\<close> of the age field\<close>
  | Analyze world            \<comment> \<open>a click on Analyze\<close>

fun step :: "runtime \<Rightarrow> app \<Rightarrow> event \<Rightarrow> app" where
  "step rt s (FileChange f) = s\<lparr>selected := f\<rparr>"
| "step rt s (AgeChange a) = s\<lparr>age := a\<rparr>"
| "step rt s (Analyze w) = onAnalyze rt w s"

definition run :: "runtime \<Rightarrow> app \<Rightarrow> event list \<Rightarrow> app" where
  "run rt s evs = foldl (step rt) s evs"


subsection \<open>A concrete runtime\<close>

text \<open>
  \<^verbatim>\<open>JSON.stringify(v)\<close> without indentation, after \<open>SerializeJSONProperty\<close>: \<^verbatim>\<open>undefined\<close>
  has no text (its property is left out, its array slot is \<^verbatim>\<open>null\<close>), and a number that is
  not finite is written \<^verbatim>\<open>null\<close>.
\<close>

definition hex_char :: "nat \<Rightarrow> char" where
  "hex_char d = (if d < 10 then char_of (48 + d) else char_of (87 + d))"

definition quote_char :: "char \<Rightarrow> string" where
  "quote_char c =
     (let n = (of_char c :: nat) in
      if n = 0x22 then [CHR 0x5C, CHR 0x22]
      else if n = 0x5C then [CHR 0x5C, CHR 0x5C]
      else if n = 8 then [CHR 0x5C, CHR ''b'']
      else if n = 12 then [CHR 0x5C, CHR ''f'']
      else if n = 10 then [CHR 0x5C, CHR ''n'']
      else if n = 13 then [CHR 0x5C, CHR ''r'']
      else if n = 9 then [CHR 0x5C, CHR ''t'']
      else if n < 32 then [CHR 0x5C, CHR ''u'', CHR ''0'', CHR ''0'', hex_char (n div 16), hex_char (n mod 16)]
      else [c])"

definition QuoteJSONString :: "string \<Rightarrow> string" where
  "QuoteJSONString s = [CHR 0x22] @ concat (map quote_char s) @ [CHR 0x22]"

fun SerializeJSONProperty :: "jsval \<Rightarrow> string option" where
  "SerializeJSONProperty JUndefined = None"
| "SerializeJSONProperty JNull = Some ''null''"
| "SerializeJSONProperty (JBool b) = Some (if b then ''true'' else ''false'')"
| "SerializeJSONProperty (JNum n) =
     Some (case n of Fin q \<Rightarrow> Number_toString (Fin q) | _ \<Rightarrow> ''null'')"
| "SerializeJSONProperty (JStr s) = Some (QuoteJSONString s)"
| "SerializeJSONProperty (JArr xs) =
     Some (''['' @ join '',''
             (map (\<lambda>x. case SerializeJSONProperty x of None \<Rightarrow> ''null'' | Some t \<Rightarrow> t) xs)
           @ '']'')"
| "SerializeJSONProperty (JObj kvs) =
     Some (''{'' @ join '',''
             (concat (map (\<lambda>kv. case SerializeJSONProperty (snd kv) of
                                    None \<Rightarrow> []
                                  | Some t \<Rightarrow> [QuoteJSONString (fst kv) @ '':'' @ t]) kvs))
           @ ''}'')"

definition stringify :: "jsval \<Rightarrow> string" where
  \<comment> \<open>\<^verbatim>\<open>JSON.stringify(undefined)\<close> is \<^verbatim>\<open>undefined\<close>, which \<^verbatim>\<open>setItem\<close> would store as its string\<close>
  "stringify v = (case SerializeJSONProperty v of None \<Rightarrow> ''undefined'' | Some t \<Rightarrow> t)"

text \<open>
  \<^verbatim>\<open>JSON.parse\<close>, by recursive descent over the JSON grammar. The fuel bounds the number of
  nested calls; a text never needs more of them than it has characters. An escape
  \<^verbatim>\<open>\uXXXX\<close> beyond the characters of \<^typ>\<open>string\<close> is refused.
\<close>

definition is_json_ws :: "char \<Rightarrow> bool" where
  "is_json_ws c = ((of_char c :: nat) \<in> {32, 9, 10, 13})"

definition skip_ws :: "string \<Rightarrow> string" where
  "skip_ws s = dropWhile is_json_ws s"

definition unescape :: "char \<Rightarrow> char option" where
  "unescape e =
     (if e = CHR 0x22 \<or> e = CHR 0x5C \<or> e = CHR ''/'' then Some e
      else if e = CHR ''b'' then Some (CHR 0x08)
      else if e = CHR ''f'' then Some (CHR 0x0C)
      else if e = CHR ''n'' then Some (CHR 0x0A)
      else if e = CHR ''r'' then Some (CHR 0x0D)
      else if e = CHR ''t'' then Some (CHR 0x09)
      else None)"

definition hex4 :: "string \<Rightarrow> int option" where
  "hex4 ds = (if length ds = 4 \<and> all_digits 16 ds then Some (digits_value 16 ds) else None)"

fun parse_chars :: "string \<Rightarrow> (string \<times> string) option" where
  "parse_chars [] = None"
| "parse_chars (c # cs) =
     (if c = CHR 0x22 then Some ([], cs)
      else if c = CHR 0x5C then
        (case cs of
           [] \<Rightarrow> None
         | e # r \<Rightarrow>
             if e = CHR ''u'' then
               (case hex4 (take 4 r) of
                  None \<Rightarrow> None
                | Some n \<Rightarrow>
                    if n < 256
                    then map_option (\<lambda>tr. (char_of n # fst tr, snd tr)) (parse_chars (drop 4 r))
                    else None)
             else
               (case unescape e of
                  None \<Rightarrow> None
                | Some d \<Rightarrow> map_option (\<lambda>tr. (d # fst tr, snd tr)) (parse_chars r)))
      else if (of_char c :: nat) < 32 then None
      else map_option (\<lambda>tr. (c # fst tr, snd tr)) (parse_chars cs))"

definition parse_number :: "string \<Rightarrow> (jsnum \<times> string) option" where
  "parse_number s =
     (let neg = (s \<noteq> [] \<and> hd s = CHR ''-'');
          s1 = (if neg then tl s else s);
          ip = takeWhile is_digit s1;
          r1 = dropWhile is_digit s1;
          dot = (r1 \<noteq> [] \<and> hd r1 = CHR ''.'');
          fp = (if dot then takeWhile is_digit (tl r1) else []);
          r2 = (if dot then dropWhile is_digit (tl r1) else r1);
          ex = (r2 \<noteq> [] \<and> (hd r2 = CHR ''e'' \<or> hd r2 = CHR ''E''));
          r3 = (if ex then tl r2 else r2);
          sg = (if ex \<and> r3 \<noteq> [] \<and> (hd r3 = CHR ''+'' \<or> hd r3 = CHR ''-'') then [hd r3] else []);
          r4 = drop (length sg) r3;
          ed = (if ex then takeWhile is_digit r4 else []);
          r5 = (if ex then dropWhile is_digit r4 else r2)
      in if ip = [] \<or> (1 < length ip \<and> hd ip = CHR ''0'') \<or> (dot \<and> fp = []) \<or> (ex \<and> ed = [])
         then None
         else let e = (if sg = ''-'' then - digits_value 10 ed else digits_value 10 ed);
                  q = of_int (digits_value 10 (ip @ fp)) * pow10 (e - int (length fp))
              in Some (round_double (if neg then - q else q), r5))"

fun put :: "string \<Rightarrow> jsval \<Rightarrow> (string \<times> jsval) list \<Rightarrow> (string \<times> jsval) list" where
  "put k v [] = [(k, v)]"
| "put k v (kv # kvs) = (if fst kv = k then (k, v) # kvs else kv # put k v kvs)"

definition own_properties :: "(string \<times> jsval) list \<Rightarrow> (string \<times> jsval) list" where
  \<comment> \<open>a key written twice keeps its place and takes the later value\<close>
  "own_properties kvs = foldl (\<lambda>acc kv. put (fst kv) (snd kv) acc) [] kvs"

fun parse_value :: "nat \<Rightarrow> string \<Rightarrow> (jsval \<times> string) option"
  and parse_elements :: "nat \<Rightarrow> string \<Rightarrow> (jsval list \<times> string) option"
  and parse_members :: "nat \<Rightarrow> string \<Rightarrow> ((string \<times> jsval) list \<times> string) option"
where
  "parse_value 0 s = None"
| "parse_value (Suc n) s =
     (case skip_ws s of
        [] \<Rightarrow> None
      | c # cs \<Rightarrow>
          if c = CHR ''{'' then
            (case skip_ws cs of
               [] \<Rightarrow> None
             | d # ds \<Rightarrow>
                 if d = CHR ''}'' then Some (JObj [], ds)
                 else map_option (\<lambda>kr. (JObj (own_properties (fst kr)), snd kr)) (parse_members n cs))
          else if c = CHR ''['' then
            (case skip_ws cs of
               [] \<Rightarrow> None
             | d # ds \<Rightarrow>
                 if d = CHR '']'' then Some (JArr [], ds)
                 else map_option (\<lambda>vr. (JArr (fst vr), snd vr)) (parse_elements n cs))
          else if c = CHR 0x22 then map_option (\<lambda>tr. (JStr (fst tr), snd tr)) (parse_chars cs)
          else if c = CHR ''-'' \<or> is_digit c then
            map_option (\<lambda>xr. (JNum (fst xr), snd xr)) (parse_number (c # cs))
          else if take 4 (c # cs) = ''true'' then Some (JBool True, drop 3 cs)
          else if take 5 (c # cs) = ''false'' then Some (JBool False, drop 4 cs)
          else if take 4 (c # cs) = ''null'' then Some (JNull, drop 3 cs)
          else None)"
| "parse_elements 0 s = None"
| "parse_elements (Suc n) s =
     (case parse_value n s of
        None \<Rightarrow> None
      | Some vr \<Rightarrow>
          (case skip_ws (snd vr) of
             [] \<Rightarrow> None
           | c # cs \<Rightarrow>
               if c = CHR '','' then
                 map_option (\<lambda>vsr. (fst vr # fst vsr, snd vsr)) (parse_elements n cs)
               else if c = CHR '']'' then Some ([fst vr], cs)
               else None))"
| "parse_members 0 s = None"
| "parse_members (Suc n) s =
     (case skip_ws s of
        [] \<Rightarrow> None
      | q # cs \<Rightarrow>
          if q \<noteq> CHR 0x22 then None
          else
            (case parse_chars cs of
               None \<Rightarrow> None
             | Some kr \<Rightarrow>
                 (case skip_ws (snd kr) of
                    [] \<Rightarrow> None
                  | c # r1 \<Rightarrow>
                      if c \<noteq> CHR '':'' then None
                      else
                        (case parse_value n r1 of
                           None \<Rightarrow> None
                         | Some vr \<Rightarrow>
                             (case skip_ws (snd vr) of
                                [] \<Rightarrow> None
                              | d # r3 \<Rightarrow>
                                  if d = CHR '','' then
                                    map_option (\<lambda>mr. ((fst kr, fst vr) # fst mr, snd mr))
                                      (parse_members n r3)
                                  else if d = CHR ''}'' then Some ([(fst kr, fst vr)], r3)
                                  else None)))))"

definition parse :: "string \<Rightarrow> jsval option" where
  "parse s =
     (case parse_value (Suc (length s)) s of
        None \<Rightarrow> None
      | Some vr \<Rightarrow> if skip_ws (snd vr) = [] then Some (fst vr) else None)"

definition js :: runtime where
  "js = \<lparr> JSON_parse = parse, JSON_stringify = stringify \<rparr>"

subsection \<open>The words of the specification\<close>


text \<open>
  The span ``from the first \<^verbatim>\<open>{\<close> to the last \<^verbatim>\<open>}\<close> in the response'', by the positions of
  the two characters; there is none when either is missing or the last \<^verbatim>\<open>}\<close> comes first.
\<close>

definition brace_span :: "string \<Rightarrow> string option" where
  "brace_span text =
     (let i = length (takeWhile (\<lambda>c. c \<noteq> CHR ''{'') text);
          j = length text - 1 - length (takeWhile (\<lambda>c. c \<noteq> CHR ''}'') (rev text))
      in if CHR ''{'' \<in> set text \<and> CHR ''}'' \<in> set text \<and> i < j
         then Some (take (j + 1 - i) (drop i text))
         else None)"



text \<open>The constraints on a record of the history: the clamped severity and the two lists.\<close>

definition entries_ok :: "jsval \<Rightarrow> bool" where
  "entries_ok v =
     (case v of
        JArr xs \<Rightarrow> length xs \<le> 4 \<and> (\<forall>x \<in> set xs. case x of JStr t \<Rightarrow> t \<noteq> [] | _ \<Rightarrow> False)
      | _ \<Rightarrow> False)"

definition record_ok :: "jsval \<Rightarrow> bool" where
  "record_ok r =
     ((case getprop r ''severity'' of JNum (Fin q) \<Rightarrow> 0 \<le> q \<and> q \<le> 100 | _ \<Rightarrow> False)
      \<and> entries_ok (getprop r ''precautions'')
      \<and> entries_ok (getprop r ''meds''))"

text \<open>
  What a value is after \<^verbatim>\<open>JSON.parse(JSON.stringify(v))\<close>, read off \<open>SerializeJSONProperty\<close>:
  \<open>None\<close> where there is no text. \<open>codec_at\<close> says that a runtime does this at a value, and
  that the text is not empty.
\<close>

fun json_image :: "jsval \<Rightarrow> jsval option" where
  "json_image JUndefined = None"
| "json_image JNull = Some JNull"
| "json_image (JBool b) = Some (JBool b)"
| "json_image (JNum n) = Some (case n of Fin q \<Rightarrow> JNum (Fin q) | _ \<Rightarrow> JNull)"
| "json_image (JStr s) = Some (JStr s)"
| "json_image (JArr xs) =
     Some (JArr (map (\<lambda>x. case json_image x of None \<Rightarrow> JNull | Some y \<Rightarrow> y) xs))"
| "json_image (JObj kvs) =
     Some (JObj (concat (map (\<lambda>kv. case json_image (snd kv) of
                                     None \<Rightarrow> []
                                   | Some y \<Rightarrow> [(fst kv, y)]) kvs)))"


definition storable :: "jsval \<Rightarrow> bool" where
  \<comment> \<open>an object whose properties are \<^verbatim>\<open>undefined\<close> or values that JSON text can hold\<close>
  "storable r =
     (case r of
        JObj kvs \<Rightarrow>
          distinct (map fst kvs) \<and> (\<forall>kv \<in> set kvs. snd kv = JUndefined \<or> json_image (snd kv) = Some (snd kv))
      | _ \<Rightarrow> False)"



text \<open>What a session may leave in the stored item: what was there, or the text of records that are in order.\<close>

definition persisted_ok :: "runtime \<Rightarrow> app \<Rightarrow> app \<Rightarrow> bool" where
  "persisted_ok rt s0 s =
     (storage s = storage s0
      \<or> (\<exists>ys. storage s = Some (JSON_stringify rt (JArr ys)) \<and> (\<forall>r \<in> set ys. record_ok r)))"

subsection \<open>A sample session\<close>

definition sample_file :: File where
  "sample_file = \<lparr> mimeType = ''image/png'', bytes = ''PNG'', objectUrl = ''blob:healscan/1'' \<rparr>"

definition sample_response :: string where
  \<open>sample_response =
     ''Sure! ```json'' @ [CHR 0x0A]
     @ ''{"type":"Burn","stage":"Inflammatory","severity":150,"precautions":["a","","b"],"meds":[]}''
     @ [CHR 0x0A] @ ''```''\<close>

definition sample_world :: world where
  "sample_world =
     \<lparr> apiKey = Some ''key'', generateContent = (\<lambda>prompt f. Inr sample_response),
       now = 1700000000000, quotaExceeded = False \<rparr>"

definition sample_start :: app where
  "sample_start = (initial js None)\<lparr>selected := Some sample_file\<rparr>"

text \<open>The record the sample session makes, up to the age entered.\<close>

definition sample_entry :: "jsval \<Rightarrow> string \<Rightarrow> jsval" where
  "sample_entry a g =
     JObj [(''type'', JStr ''Burn''), (''stage'', JStr ''Inflammatory''),
           (''severity'', JNum (Fin 100)),
           (''precautions'', JArr [JStr ''a'', JStr ''b'']), (''meds'', JArr []),
           (''timestamp'', JNum (Fin 1700000000000)),
           (''imageUrl'', JStr ''blob:healscan/1''), (''age'', a), (''ageGroup'', JStr g)]"




definition junk_item :: string where
  \<open>junk_item = ''[{"severity":150,"precautions":[""],"meds":[]}]''\<close>

definition junk_record :: jsval where
  "junk_record =
     JObj [(''severity'', JNum (Fin 150)), (''precautions'', JArr [JStr []]), (''meds'', JArr [])]"

section \<open>Properties\<close>

subsection \<open>Normalisation of the payload\<close>



lemma clamp_range:
  assumes "n \<noteq> NaN"
  shows "\<exists>q. clamp n (Fin 0) (Fin 100) = Fin q \<and> 0 \<le> q \<and> q \<le> 100"
  using assms by (cases n) (auto simp: clamp_def Math_min_def Math_max_def)



lemma toStrArray_array:
  "toStrArray (JArr xs) = map ToString (filter (\<lambda>x. ToString x \<noteq> []) xs)"
  by (simp add: toStrArray_def filter_map comp_def)


lemma toStrArray_nonempty: "s \<in> set (toStrArray v) \<Longrightarrow> s \<noteq> []"
  by (cases v) (auto simp: toStrArray_def)

lemma normalized_list:
  fixes v :: jsval
  defines "out \<equiv> slice 4 (toStrArray v)"
  shows "length out \<le> 4"
    and "\<forall>s \<in> set out. s \<noteq> []"
    and "(case v of
            JArr xs \<Rightarrow> out = map ToString (take 4 (filter (\<lambda>x. ToString x \<noteq> []) xs))
          | _ \<Rightarrow> out = [])"
proof -
  show "length out \<le> 4"
    by (simp add: out_def slice_def)
  show "\<forall>s \<in> set out. s \<noteq> []"
    unfolding out_def slice_def using toStrArray_nonempty by (blast dest: in_set_takeD)
  show "(case v of
            JArr xs \<Rightarrow> out = map ToString (take 4 (filter (\<lambda>x. ToString x \<noteq> []) xs))
          | _ \<Rightarrow> out = [])"
    by (cases v) (simp_all add: out_def slice_def toStrArray_array take_map, simp_all add: toStrArray_def)
qed






subsection \<open>Failures\<close>

lemma analysis_failures:
  "apiKey w = None \<or> apiKey w = Some [] \<Longrightarrow> analyzeWithGemini rt w f a = Inl ConfigurationError"
  "apiKey w = Some k \<Longrightarrow> k \<noteq> [] \<Longrightarrow> generateContent w (buildPrompt a) f = Inl msg
     \<Longrightarrow> analyzeWithGemini rt w f a = Inl (AnalysisFailed msg)"
  "apiKey w = Some k \<Longrightarrow> k \<noteq> [] \<Longrightarrow> generateContent w (buildPrompt a) f = Inr text
     \<Longrightarrow> analyzeWithGemini rt w f a = parseModelResponse rt text"
  by (auto simp: analyzeWithGemini_def)

text \<open>
  Claim C8. When the analysis fails (no key, the upload or the endpoint throws, no JSON in
  the response, JSON that does not parse), \<^verbatim>\<open>onAnalyze\<close> shows the error and leaves the
  history, the stored item, the displayed result and the tab as they were.
\<close>

theorem failure_leaves_state:
  assumes "selected s = Some f"
    and "analyzeWithGemini rt w f (if isNaN (StringToNumber (age s)) then None else Some (StringToNumber (age s))) = Inl e"
  shows "history (onAnalyze rt w s) = history s
       \<and> storage (onAnalyze rt w s) = storage s
       \<and> result (onAnalyze rt w s) = result s
       \<and> activeTab (onAnalyze rt w s) = activeTab s
       \<and> alerts (onAnalyze rt w s) = alerts s @ [Failure e]
       \<and> \<not> busy (onAnalyze rt w s)"
  using assms by (simp add: onAnalyze_def new_entry_def caught_def Let_def)

theorem failure_leaves_state_witness:
  "selected sample_start = Some sample_file
   \<and> analyzeWithGemini js (sample_world\<lparr>generateContent := \<lambda>p f. Inr ''I cannot help with that.''\<rparr>) sample_file
        (if isNaN (StringToNumber (age sample_start)) then None else Some (StringToNumber (age sample_start)))
       = Inl NoJsonFound
   \<and> history (onAnalyze js (sample_world\<lparr>generateContent := \<lambda>p f. Inr ''I cannot help with that.''\<rparr>) sample_start)
       = history sample_start
   \<and> storage (onAnalyze js (sample_world\<lparr>generateContent := \<lambda>p f. Inr ''I cannot help with that.''\<rparr>) sample_start)
       = storage sample_start
   \<and> result (onAnalyze js (sample_world\<lparr>generateContent := \<lambda>p f. Inr ''I cannot help with that.''\<rparr>) sample_start)
       = result sample_start"
proof -
  let ?w = "sample_world\<lparr>generateContent := \<lambda>p f. Inr ''I cannot help with that.''\<rparr>"
  have f: "selected sample_start = Some sample_file"
    by code_simp
  have a: "analyzeWithGemini js ?w sample_file
        (if isNaN (StringToNumber (age sample_start)) then None else Some (StringToNumber (age sample_start)))
       = Inl NoJsonFound"
    by code_simp
  from failure_leaves_state [OF f a] f a show ?thesis
    by blast
qed

text \<open>
  Claim C10. A stored text that parses is loaded as the value it parses to, whatever that
  value is: nothing checks that it is an array, how long it is, or what its entries are.
\<close>

theorem history_loaded_unchecked:
  assumes "JSON_parse rt text = Some v" and "text \<noteq> []"
  shows "readHistory rt (Some text) = v \<and> history (initial rt (Some text)) = v"
  using assms by (simp add: readHistory_def initial_def)

theorem history_loaded_unchecked_witness:
  \<open>JSON_parse js ''{"severity":150}'' = Some (JObj [(''severity'', JNum (Fin 150))])
   \<and> ''{"severity":150}'' \<noteq> []
   \<and> readHistory js (Some ''{"severity":150}'') = JObj [(''severity'', JNum (Fin 150))]
   \<and> history (initial js (Some ''{"severity":150}'')) = JObj [(''severity'', JNum (Fin 150))]\<close>
proof -
  have p: \<open>JSON_parse js ''{"severity":150}'' = Some (JObj [(''severity'', JNum (Fin 150))])\<close>
    by code_simp
  have n: \<open>''{"severity":150}'' \<noteq> []\<close>
    by simp
  from history_loaded_unchecked [OF p n] p n show ?thesis
    by blast
qed

text \<open>
  Claim C1, at the empty age field: \<^verbatim>\<open>Number('')\<close> is \<open>0\<close>, so the record made gets the age
  group \<^verbatim>\<open>Child\<close>, where \<^verbatim>\<open>7\<close> gives \<^verbatim>\<open>Child\<close> and \<^verbatim>\<open>abc\<close> gives \<^verbatim>\<open>Any Age\<close>.
\<close>

theorem empty_age_is_child:
  "map_option (\<lambda>r. getprop r ''ageGroup'') (result (onAnalyze js sample_world (sample_start\<lparr>age := []\<rparr>)))
     = Some (JStr ''Child'')
   \<and> toAgeGroup (Some (StringToNumber [])) = ''Child''
   \<and> toAgeGroup (Some (StringToNumber ''7'')) = ''Child''
   \<and> toAgeGroup (Some (StringToNumber ''abc'')) = ''Any Age''"
  by code_simp

lemma takeWhile_upto:
  "(\<forall>x \<in> set xs. P x) \<Longrightarrow> \<not> P y \<Longrightarrow> takeWhile P (xs @ y # ys) = xs"
  by (simp add: takeWhile_append2)

lemma dropWhile_upto:
  "(\<forall>x \<in> set xs. P x) \<Longrightarrow> \<not> P y \<Longrightarrow> dropWhile P (xs @ y # ys) = y # ys"
  by (simp add: dropWhile_append2)

lemma regex_match_span: "regex_match text = brace_span text"
proof (cases "CHR ''{'' \<in> set text")
  case False
  then have dw0: "dropWhile (\<lambda>c. c \<noteq> CHR ''{'') text = []"
    by (auto simp: dropWhile_eq_Nil_conv)
  show ?thesis
    unfolding regex_match_def brace_span_def dw0 using False by simp
next
  case True
  then obtain pre rest where tx: "text = pre @ CHR ''{'' # rest" and pre: "CHR ''{'' \<notin> set pre"
    by (auto dest: split_list_first)
  from pre have pre': "\<forall>x \<in> set pre. x \<noteq> CHR ''{''" by blast
  have tw: "takeWhile (\<lambda>c. c \<noteq> CHR ''{'') text = pre"
    unfolding tx using pre' by (rule takeWhile_upto) simp
  have dw: "dropWhile (\<lambda>c. c \<noteq> CHR ''{'') text = CHR ''{'' # rest"
    unfolding tx using pre' by (rule dropWhile_upto) simp
  show ?thesis
  proof (cases "CHR ''}'' \<in> set rest")
    case inrest: True
    then obtain mid post where rest: "rest = mid @ CHR ''}'' # post" and post: "CHR ''}'' \<notin> set post"
      by (auto dest: split_list_last)
    from post have post': "\<forall>x \<in> set (rev post). x \<noteq> CHR ''}''" by auto
    have "dropWhile (\<lambda>c. c \<noteq> CHR ''}'') (rev rest) = CHR ''}'' # rev mid"
      using dropWhile_upto [of "rev post" "\<lambda>c. c \<noteq> CHR ''}''" "CHR ''}''" "rev mid"] post'
      by (simp add: rest)
    then have r: "regex_match text = Some (CHR ''{'' # mid @ [CHR ''}''])"
      using inrest by (simp add: regex_match_def dw)
    have "rev text = rev post @ CHR ''}'' # (rev mid @ CHR ''{'' # rev pre)"
      by (simp add: tx rest)
    then have "takeWhile (\<lambda>c. c \<noteq> CHR ''}'') (rev text) = rev post"
      using takeWhile_upto [of "rev post" "\<lambda>c. c \<noteq> CHR ''}''" "CHR ''}''"] post' by simp
    then have "brace_span text = Some (CHR ''{'' # mid @ [CHR ''}''])"
      using True by (simp add: brace_span_def tw) (simp add: tx rest)
    with r show ?thesis by simp
  next
    case notin: False
    then have r: "regex_match text = None"
      by (simp add: regex_match_def dw)
    show ?thesis
    proof (cases "CHR ''}'' \<in> set pre")
      case False
      with notin have "CHR ''}'' \<notin> set text" by (simp add: tx)
      then show ?thesis using r by (simp add: brace_span_def)
    next
      case True
      then obtain p1 p2 where pre2: "pre = p1 @ CHR ''}'' # p2" and p2: "CHR ''}'' \<notin> set p2"
        by (auto dest: split_list_last)
      have "rev text = (rev rest @ CHR ''{'' # rev p2) @ CHR ''}'' # rev p1"
        by (simp add: tx pre2)
      moreover have "\<forall>x \<in> set (rev rest @ CHR ''{'' # rev p2). x \<noteq> CHR ''}''"
        using notin p2 by auto
      ultimately have "takeWhile (\<lambda>c. c \<noteq> CHR ''}'') (rev text) = rev rest @ CHR ''{'' # rev p2"
        using takeWhile_upto [of "rev rest @ CHR ''{'' # rev p2" "\<lambda>c. c \<noteq> CHR ''}''" "CHR ''}''" "rev p1"]
        by simp
      then have "brace_span text = None"
        by (simp add: brace_span_def tw) (simp add: tx pre2)
      with r show ?thesis by simp
    qed
  qed
qed

text \<open>
  Claim C5. The parser takes the text from the first \<^verbatim>\<open>{\<close> to the last \<^verbatim>\<open>}\<close> of the response
  and gives it to \<^verbatim>\<open>JSON.parse\<close>; it fails with \<open>NoJsonFound\<close> exactly when there is no such
  span, and then there is no record.
\<close>

theorem response_span_parsed:
  "parseModelResponse rt text
     = (case brace_span text of
          None \<Rightarrow> Inl NoJsonFound
        | Some m \<Rightarrow>
            (case JSON_parse rt m of
               None \<Rightarrow> Inl MalformedResponse
             | Some json \<Rightarrow> if nullish json then Inl TypeError else Inr (normalized json)))
   \<and> (parseModelResponse rt text = Inl NoJsonFound \<longleftrightarrow> brace_span text = None)"
  by (simp add: parseModelResponse_def regex_match_span split: option.splits)

theorem response_span_parsed_witness:
  "brace_span sample_response
     = Some (take 90 (drop 14 sample_response))
   \<and> parseModelResponse js sample_response
     = Inr \<lparr>type = ''Burn'', stage = ''Inflammatory'', severity = Fin 100,
            precautions = [''a'', ''b''], meds = []\<rparr>
   \<and> brace_span ''} no JSON here {'' = None
   \<and> parseModelResponse js ''} no JSON here {'' = Inl NoJsonFound"
proof -
  have 1: "brace_span sample_response = Some (take 90 (drop 14 sample_response))"
    by code_simp
  have 2: "brace_span ''} no JSON here {'' = None"
    by code_simp
  have 3: "JSON_parse js (take 90 (drop 14 sample_response))
      = Some (JObj [(''type'', JStr ''Burn''), (''stage'', JStr ''Inflammatory''),
                    (''severity'', JNum (Fin 150)),
                    (''precautions'', JArr [JStr ''a'', JStr [], JStr ''b'']), (''meds'', JArr [])])"
    by code_simp
  have 4: "normalized (JObj [(''type'', JStr ''Burn''), (''stage'', JStr ''Inflammatory''),
                    (''severity'', JNum (Fin 150)),
                    (''precautions'', JArr [JStr ''a'', JStr [], JStr ''b'']), (''meds'', JArr [])])
      = \<lparr>type = ''Burn'', stage = ''Inflammatory'', severity = Fin 100,
            precautions = [''a'', ''b''], meds = []\<rparr>"
    by code_simp
  from response_span_parsed [of js sample_response] 1 3 4
  have 5: "parseModelResponse js sample_response
     = Inr \<lparr>type = ''Burn'', stage = ''Inflammatory'', severity = Fin 100,
            precautions = [''a'', ''b''], meds = []\<rparr>"
    by (simp add: nullish_def)
  from response_span_parsed [of js "''} no JSON here {''"] 2
  have 6: "parseModelResponse js ''} no JSON here {'' = Inl NoJsonFound"
    by simp
  from 1 2 5 6 show ?thesis by blast
qed

subsection \<open>The history\<close>







lemma response_normalized:
  "parseModelResponse rt text = Inr res \<Longrightarrow> \<exists>json. res = normalized json"
  by (auto simp: parseModelResponse_def split: option.splits if_splits)

lemma analysis_normalized:
  "analyzeWithGemini rt w f a = Inr res \<Longrightarrow> \<exists>json. res = normalized json"
  by (auto simp: analyzeWithGemini_def split: option.splits if_splits sum.splits dest: response_normalized)

lemma normalized_severity_range:
  "\<exists>q. severity (normalized json) = Fin q \<and> 0 \<le> q \<and> q \<le> 100"
proof -
  have "num_or (ToNumber (getprop json ''severity'')) (Fin 0) \<noteq> NaN"
    by (simp add: num_or_def)
  from clamp_range [OF this] show ?thesis
    by (simp add: normalized_def)
qed

lemma entries_ok_strings:
  "entries_ok (JArr (map JStr (slice 4 (toStrArray v))))"
  using normalized_list(1,2) [of v] by (simp add: entries_ok_def)

lemma entry_ok: "record_ok (entry (normalized json) t url a g)"
proof -
  obtain q where q: "severity (normalized json) = Fin q" "0 \<le> q" "q \<le> 100"
    using normalized_severity_range by blast
  have p: "precautions (normalized json) = slice 4 (toStrArray (getprop json ''precautions''))"
    and m: "meds (normalized json) = slice 4 (toStrArray (getprop json ''meds''))"
    by (simp_all add: normalized_def)
  show ?thesis
    unfolding record_ok_def entry_def p m
    using q entries_ok_strings by simp
qed

lemma new_entry_ok: "new_entry rt w s f = Inr en \<Longrightarrow> record_ok en"
  by (auto simp: new_entry_def Let_def entry_ok split: sum.splits dest!: analysis_normalized)

lemma step_ok:
  assumes "history s = JArr xs" and "\<forall>r \<in> set xs. record_ok r" and "persisted_ok rt s0 s"
  shows "(\<exists>ys. history (step rt s ev) = JArr ys \<and> (\<forall>r \<in> set ys. record_ok r))
       \<and> persisted_ok rt s0 (step rt s ev)"
proof (cases ev)
  case (Analyze w)
  show ?thesis
  proof (cases "selected s")
    case None
    with assms Analyze show ?thesis by (simp add: onAnalyze_def persisted_ok_def)
  next
    case (Some f)
    show ?thesis
    proof (cases "new_entry rt w s f")
      case (Inl e)
      with assms Analyze Some show ?thesis by (simp add: onAnalyze_def caught_def persisted_ok_def)
    next
      case (Inr en)
      then have "record_ok en" by (rule new_entry_ok)
      with assms(2) have ok: "\<forall>r \<in> set (take 25 (en # xs)). record_ok r"
        by (auto dest: in_set_takeD)
      show ?thesis
      proof (cases "quotaExceeded w")
        case True
        with assms Analyze Some Inr ok show ?thesis
          by (simp add: onAnalyze_def caught_def slice_def Let_def persisted_ok_def)
      next
        case False
        have "persisted_ok rt s0 (step rt s ev)"
          unfolding persisted_ok_def using ok assms(1) Analyze Some Inr False
          by (intro disjI2 exI [of _ "take 25 (en # xs)"])
             (simp add: onAnalyze_def saveHistory_def slice_def Let_def)
        moreover have "history (step rt s ev) = JArr (take 25 (en # xs))"
          using assms(1) Analyze Some Inr False
          by (simp add: onAnalyze_def saveHistory_def slice_def Let_def)
        ultimately show ?thesis using ok by blast
      qed
    qed
  qed
qed (use assms in \<open>simp_all add: persisted_ok_def\<close>)

lemma run_ok:
  assumes "history s = JArr xs" and "\<forall>r \<in> set xs. record_ok r" and "persisted_ok rt s0 s"
  shows "(\<exists>ys. history (run rt s evs) = JArr ys \<and> (\<forall>r \<in> set ys. record_ok r))
       \<and> persisted_ok rt s0 (run rt s evs)"
  using assms
proof (induction evs arbitrary: s xs)
  case Nil
  then show ?case by (simp add: run_def)
next
  case (Cons ev evs)
  from step_ok [OF Cons.prems, of ev]
  obtain ys where "history (step rt s ev) = JArr ys" "\<forall>r \<in> set ys. record_ok r"
    "persisted_ok rt s0 (step rt s ev)" by blast
  from Cons.IH [OF this] show ?case by (simp add: run_def)
qed

text \<open>
  Claim C7, as stated, fails: a stored record with the severity 150 and an empty precaution
  is loaded unchecked and written back with the next record.
\<close>

theorem loaded_record_persisted:
  "history (initial js (Some junk_item)) = JArr [junk_record]
   \<and> \<not> record_ok junk_record
   \<and> storage (onAnalyze js sample_world ((initial js (Some junk_item))\<lparr>selected := Some sample_file\<rparr>))
       = Some (JSON_stringify js (JArr [sample_entry (JNum (Fin 0)) ''Child'', junk_record]))"
  by code_simp

text \<open>
  Claim C7, amended. Every record an analysis makes is in order (severity between 0 and
  100, at most 4 precautions and 4 meds, none of them empty). Starting from a history
  whose records are in order (the empty one of a first start), after any session every
  record of the history is in order, and the stored item is what it was at the start or
  the text of records that are in order.
\<close>

theorem records_in_order:
  assumes "history s = JArr xs" and "\<forall>r \<in> set xs. record_ok r"
  shows "(\<exists>ys. history (run rt s evs) = JArr ys \<and> (\<forall>r \<in> set ys. record_ok r))
       \<and> (storage (run rt s evs) = storage s
          \<or> (\<exists>ys. storage (run rt s evs) = Some (JSON_stringify rt (JArr ys))
                   \<and> (\<forall>r \<in> set ys. record_ok r)))
       \<and> (\<forall>w s' f en. new_entry rt w s' f = Inr en \<longrightarrow> record_ok en)"
proof -
  have "persisted_ok rt s s"
    by (simp add: persisted_ok_def)
  from run_ok [OF assms this, of evs] new_entry_ok show ?thesis
    unfolding persisted_ok_def by blast
qed

theorem records_in_order_witness:
  "history sample_start = JArr []
   \<and> (\<exists>ys. history (run js sample_start [AgeChange ''7'', Analyze sample_world]) = JArr ys
          \<and> (\<forall>r \<in> set ys. record_ok r))
   \<and> (storage (run js sample_start [AgeChange ''7'', Analyze sample_world]) = storage sample_start
      \<or> (\<exists>ys. storage (run js sample_start [AgeChange ''7'', Analyze sample_world])
                  = Some (JSON_stringify js (JArr ys))
               \<and> (\<forall>r \<in> set ys. record_ok r)))
   \<and> history (run js sample_start [AgeChange ''7'', Analyze sample_world])
       = JArr [sample_entry (JNum (Fin 7)) ''Child'']
   \<and> record_ok (sample_entry (JNum (Fin 7)) ''Child'')"
proof -
  have h: "history sample_start = JArr []"
    by code_simp
  have e: "\<forall>r \<in> set []. record_ok r"
    by simp
  have v: "history (run js sample_start [AgeChange ''7'', Analyze sample_world])
       = JArr [sample_entry (JNum (Fin 7)) ''Child'']"
    by code_simp
  have r: "record_ok (sample_entry (JNum (Fin 7)) ''Child'')"
    by code_simp
  from records_in_order [OF h e, of js "[AgeChange ''7'', Analyze sample_world]"] h v r
  show ?thesis by blast
qed

subsection \<open>Persisting and reloading\<close>






lemma image_strings: "json_image (JArr (map JStr xs)) = Some (JArr (map JStr xs))"
  by (simp add: comp_def)

lemma entry_storable:
  assumes "a \<noteq> PosInf" and "a \<noteq> NegInf"
  shows "storable (entry (normalized json) t url a g)"
proof -
  obtain q where q: "severity (normalized json) = Fin q"
    using normalized_severity_range by blast
  have a: "isNaN a \<or> (\<exists>x. a = Fin x)"
    using assms by (cases a) (simp_all add: isNaN_def)
  show ?thesis
    unfolding storable_def entry_def using q a
    by (auto simp: comp_def isNaN_def)
qed


end
